theory Spec2Isabelle
  imports Main "HOL-Library.Sublist" "HOL-Library.Multiset" "HOL-Library.Char_ord"
    "HOL-Library.List_Lexorder"
begin

section \<open>Request and response models\<close>

text \<open>
  The three pydantic models of \<^verbatim>\<open>main.py\<close>. The field \<^verbatim>\<open>text\<close> of
  \<^verbatim>\<open>Translation\<close> is written \<open>text_tr\<close> and the field \<^verbatim>\<open>translations\<close> of
  \<^verbatim>\<open>Song\<close> is written \<open>translations_of\<close> (both words are Isabelle keywords); the fields
  of \<^verbatim>\<open>SongUpdate\<close> carry the prefix \<open>upd_\<close>, because record fields share one name
  space. Python's \<^verbatim>\<open>Optional[str]\<close> is \<open>string option\<close>.
\<close>

record Translation =
  language :: string
  title :: string
  text_tr :: string

record Song =
  song_number :: string
  title_ta :: string
  text_ta :: string
  translations_of :: "Translation list"

record SongUpdate =
  upd_title_ta :: "string option"
  upd_text_ta :: "string option"
  upd_translations :: "Translation list option"

text \<open>
  The two exceptions the handlers can leave with: \<^verbatim>\<open>HTTPException(status_code, detail)\<close>,
  raised by the handlers themselves, and \<^verbatim>\<open>aiosqlite.IntegrityError\<close>, raised by a statement
  that violates a PRIMARY KEY or UNIQUE constraint.
\<close>

datatype error = HTTPException nat string | IntegrityError

text \<open>Truthiness of an \<^verbatim>\<open>Optional[str]\<close> and of an \<^verbatim>\<open>Optional[List]\<close> in a Python \<^verbatim>\<open>if\<close>.\<close>

fun truthy :: "'a list option \<Rightarrow> bool" where
  "truthy None = False"
| "truthy (Some v) = (v \<noteq> [])"

section \<open>The store\<close>

text \<open>
  \<^verbatim>\<open>init_db\<close> declares two tables. A row of \<^verbatim>\<open>songs\<close> is the tuple
  \<open>(song_number, title_ta, text_ta)\<close>; a row of \<^verbatim>\<open>translations\<close> is the tuple
  \<open>(song_number, language, title, text)\<close>. The column \<^verbatim>\<open>id\<close> of \<^verbatim>\<open>translations\<close> is assigned
  by the engine and no statement of the program reads or writes it, so it is left out: the
  UNIQUE constraint makes \<open>(song_number, language)\<close> identify a row. A table is the list of its
  rows in insertion order. A SELECT on \<^verbatim>\<open>songs\<close> scans the table in that order; a SELECT on
  \<^verbatim>\<open>translations\<close> by \<^verbatim>\<open>song_number\<close> goes through the index of the UNIQUE constraint.
\<close>

type_synonym song_row = "string \<times> string \<times> string"
type_synonym translation_row = "string \<times> string \<times> string \<times> string"

record store =
  songs_tbl :: "song_row list"
  translations_tbl :: "translation_row list"

definition tr_key :: "translation_row \<Rightarrow> string \<times> string" where
  "tr_key r = (fst r, fst (snd r))"

text \<open>
  \<^verbatim>\<open>CREATE TABLE IF NOT EXISTS\<close>: a database file without the tables (\<open>None\<close>) gets two empty
  tables, an existing one is left as it is.
\<close>

definition init_db :: "store option \<Rightarrow> store" where
  "init_db file = (case file of
      None \<Rightarrow> \<lparr>songs_tbl = [], translations_tbl = []\<rparr>
    | Some s \<Rightarrow> s)"

subsection \<open>Connections and transactions\<close>

text \<open>
  Every handler opens its own connection with \<^verbatim>\<open>async with aiosqlite.connect(DB_PATH) as db\<close>.
  The connection runs with the default isolation level of Python's \<^verbatim>\<open>sqlite3\<close>: the first
  INSERT, UPDATE or DELETE opens a transaction, \<^verbatim>\<open>db.commit()\<close> makes its changes durable, and
  leaving the \<^verbatim>\<open>async with\<close> block closes the connection, which discards whatever was not
  committed. So a connection holds the committed store and a working copy.

  SQLite enforces foreign keys, and with them \<^verbatim>\<open>ON DELETE CASCADE\<close>, only on a connection that
  has executed \<^verbatim>\<open>PRAGMA foreign_keys = ON\<close>. The flag is off on a new connection and no
  statement of \<^verbatim>\<open>main.py\<close> turns it on.
\<close>

record conn =
  committed :: store
  working :: store
  foreign_keys :: bool

definition connect :: "store \<Rightarrow> conn" where
  "connect s = \<lparr>committed = s, working = s, foreign_keys = False\<rparr>"

definition commit :: "conn \<Rightarrow> conn" where
  "commit db = db\<lparr>committed := working db\<rparr>"

definition close :: "conn \<Rightarrow> store" where
  "close db = committed db"

subsection \<open>The SQL statements of the program\<close>

text \<open>
  \<^verbatim>\<open>INSERT INTO songs(song_number, title_ta, text_ta) VALUES (?, ?, ?)\<close>:
  \<^verbatim>\<open>song_number\<close> is the primary key.
\<close>

definition sql_insert_song :: "song_row \<Rightarrow> conn \<Rightarrow> error + conn" where
  "sql_insert_song r db =
     (if fst r \<in> set (map fst (songs_tbl (working db))) then Inl IntegrityError
      else Inr (db\<lparr>working := (working db)\<lparr>songs_tbl := songs_tbl (working db) @ [r]\<rparr>\<rparr>))"

text \<open>\<^verbatim>\<open>INSERT OR IGNORE INTO songs ...\<close>: a row whose key is taken is skipped.\<close>

definition sql_insert_or_ignore_song :: "song_row \<Rightarrow> conn \<Rightarrow> conn" where
  "sql_insert_or_ignore_song r db =
     (if fst r \<in> set (map fst (songs_tbl (working db))) then db
      else db\<lparr>working := (working db)\<lparr>songs_tbl := songs_tbl (working db) @ [r]\<rparr>\<rparr>)"

text \<open>
  \<^verbatim>\<open>INSERT INTO translations(song_number, language, title, text) VALUES (?, ?, ?, ?)\<close>:
  \<^verbatim>\<open>UNIQUE(song_number, language)\<close>.
\<close>

definition sql_insert_translation :: "translation_row \<Rightarrow> conn \<Rightarrow> error + conn" where
  "sql_insert_translation r db =
     (if tr_key r \<in> set (map tr_key (translations_tbl (working db))) then Inl IntegrityError
      else Inr (db\<lparr>working :=
                  (working db)\<lparr>translations_tbl := translations_tbl (working db) @ [r]\<rparr>\<rparr>))"

text \<open>\<^verbatim>\<open>INSERT OR IGNORE INTO translations ...\<close>\<close>

definition sql_insert_or_ignore_translation :: "translation_row \<Rightarrow> conn \<Rightarrow> conn" where
  "sql_insert_or_ignore_translation r db =
     (if tr_key r \<in> set (map tr_key (translations_tbl (working db))) then db
      else db\<lparr>working :=
                (working db)\<lparr>translations_tbl := translations_tbl (working db) @ [r]\<rparr>\<rparr>)"

text \<open>
  \<^verbatim>\<open>INSERT INTO translations ... ON CONFLICT(song_number, language) DO UPDATE SET
  title=excluded.title, text=excluded.text\<close>: the row with the same key keeps its place and
  takes the new title and text; without such a row the new one is appended.
\<close>

definition sql_upsert_translation :: "translation_row \<Rightarrow> conn \<Rightarrow> conn" where
  "sql_upsert_translation r db =
     (if tr_key r \<in> set (map tr_key (translations_tbl (working db)))
      then db\<lparr>working := (working db)\<lparr>translations_tbl :=
                 map (\<lambda>old. if tr_key old = tr_key r then r else old)
                     (translations_tbl (working db))\<rparr>\<rparr>
      else db\<lparr>working :=
                (working db)\<lparr>translations_tbl := translations_tbl (working db) @ [r]\<rparr>\<rparr>)"

text \<open>
  \<^verbatim>\<open>UPDATE songs SET {fields} WHERE song_number=?\<close>, where the field list holds
  \<^verbatim>\<open>title_ta=?\<close> and \<^verbatim>\<open>text_ta=?\<close> for the columns that are given (\<open>Some\<close>).
\<close>

definition sql_update_songs :: "string option \<Rightarrow> string option \<Rightarrow> string \<Rightarrow> conn \<Rightarrow> conn" where
  "sql_update_songs new_title new_text sn db =
     db\<lparr>working := (working db)\<lparr>songs_tbl :=
        map (\<lambda>(n, ti, te).
               if n = sn
               then (n, (case new_title of Some v \<Rightarrow> v | None \<Rightarrow> ti),
                        (case new_text of Some v \<Rightarrow> v | None \<Rightarrow> te))
               else (n, ti, te))
            (songs_tbl (working db))\<rparr>\<rparr>"

text \<open>
  \<^verbatim>\<open>DELETE FROM songs WHERE song_number=?\<close>. The schema's
  \<^verbatim>\<open>FOREIGN KEY(song_number) REFERENCES songs(song_number) ON DELETE CASCADE\<close> removes the
  translations of the song on a connection that enforces foreign keys.
\<close>

definition sql_delete_song :: "string \<Rightarrow> conn \<Rightarrow> conn" where
  "sql_delete_song sn db =
     db\<lparr>working :=
          \<lparr>songs_tbl = filter (\<lambda>r. fst r \<noteq> sn) (songs_tbl (working db)),
           translations_tbl =
             (if foreign_keys db
              then filter (\<lambda>r. fst r \<noteq> sn) (translations_tbl (working db))
              else translations_tbl (working db))\<rparr>\<rparr>"

text \<open>
  \<^verbatim>\<open>SELECT song_number, title_ta, text_ta FROM songs WHERE song_number=?\<close> followed by
  \<^verbatim>\<open>fetchone()\<close>.
\<close>

definition sql_select_song :: "string \<Rightarrow> conn \<Rightarrow> song_row option" where
  "sql_select_song sn db = find (\<lambda>r. fst r = sn) (songs_tbl (working db))"

text \<open>
  \<^verbatim>\<open>SELECT language, title, text FROM translations WHERE song_number=?\<close>. The statement has
  no ORDER BY. SQLite answers it through the index that \<^verbatim>\<open>UNIQUE(song_number, language)\<close>
  creates, so the rows of the song come back in the order of that index: by \<^verbatim>\<open>language\<close>
  under the binary collation, which compares the bytes of the strings (the order of
  \<open>string\<close> here), rows of equal language in table order.
\<close>

definition sql_select_translations :: "string \<Rightarrow> conn \<Rightarrow> (string \<times> string \<times> string) list" where
  "sql_select_translations sn db =
     map snd (sort_key (\<lambda>r. fst (snd r))
                (filter (\<lambda>r. fst r = sn) (translations_tbl (working db))))"

text \<open>
  \<^verbatim>\<open>SELECT language, title, text FROM translations WHERE song_number=? AND language=?\<close>:
  the selected rows share one index key, so they come back in table order (the UNIQUE
  constraint leaves at most one).
\<close>

definition sql_select_translations_lang ::
  "string \<Rightarrow> string \<Rightarrow> conn \<Rightarrow> (string \<times> string \<times> string) list" where
  "sql_select_translations_lang sn lang db =
     map snd (filter (\<lambda>r. fst r = sn \<and> fst (snd r) = lang) (translations_tbl (working db)))"

section \<open>The handlers\<close>

text \<open>\<^verbatim>\<open>Translation(language=lang, title=title, text=text)\<close> for a selected row.\<close>

definition to_Translation :: "string \<times> string \<times> string \<Rightarrow> Translation" where
  "to_Translation r = \<lparr>language = fst r, title = fst (snd r), text_tr = snd (snd r)\<rparr>"

text \<open>
  The translations of one song as both \<^verbatim>\<open>get_songs\<close> and \<^verbatim>\<open>get_song\<close> collect them:
  \<^verbatim>\<open>if language:\<close> selects by language, the other branch selects all.
\<close>

definition collect_translations :: "string \<Rightarrow> string option \<Rightarrow> conn \<Rightarrow> Translation list" where
  "collect_translations sn lang db =
     (if truthy lang
      then (case lang of
              Some l \<Rightarrow> map to_Translation (sql_select_translations_lang sn l db)
            | None \<Rightarrow> [])
      else map to_Translation (sql_select_translations sn db))"

text \<open>\<^verbatim>\<open>GET /songs\<close>\<close>

definition get_songs :: "string option \<Rightarrow> store \<Rightarrow> Song list" where
  "get_songs lang s =
     (let db = connect s in
      map (\<lambda>(sn, ti, te).
             \<lparr>song_number = sn, title_ta = ti, text_ta = te,
              translations_of = collect_translations sn lang db\<rparr>)
          (songs_tbl (working db)))"

text \<open>\<^verbatim>\<open>GET /songs/{song_number}\<close>\<close>

definition get_song :: "string \<Rightarrow> string option \<Rightarrow> store \<Rightarrow> error + Song" where
  "get_song sn lang s =
     (let db = connect s in
      case sql_select_song sn db of
        None \<Rightarrow> Inl (HTTPException 404 ''Song not found'')
      | Some (n, ti, te) \<Rightarrow>
          Inr \<lparr>song_number = n, title_ta = ti, text_ta = te,
               translations_of = collect_translations n lang db\<rparr>)"

text \<open>
  The loop \<^verbatim>\<open>for t in song.translations\<close> of \<^verbatim>\<open>create_song\<close>: the first failing INSERT
  raises and ends the loop.
\<close>

fun insert_translations :: "string \<Rightarrow> Translation list \<Rightarrow> conn \<Rightarrow> error + conn" where
  "insert_translations sn [] db = Inr db"
| "insert_translations sn (t # ts) db =
     (case sql_insert_translation (sn, language t, title t, text_tr t) db of
        Inl e \<Rightarrow> Inl e
      | Inr db' \<Rightarrow> insert_translations sn ts db')"

text \<open>
  \<^verbatim>\<open>POST /songs\<close>. The handler returns the result and leaves the store as the closed
  connection left it. Only the song INSERT is inside the \<^verbatim>\<open>try\<close>; an IntegrityError of a
  translation INSERT leaves the handler as it is, before \<^verbatim>\<open>db.commit()\<close>.
\<close>

definition create_song :: "Song \<Rightarrow> store \<Rightarrow> (error + Song) \<times> store" where
  "create_song song s =
     (let db = connect s in
      case sql_insert_song (song_number song, title_ta song, text_ta song) db of
        Inl e \<Rightarrow> (Inl (HTTPException 400 ''Song already exists''), close db)
      | Inr db1 \<Rightarrow>
          (case insert_translations (song_number song) (translations_of song) db1 of
             Inl e \<Rightarrow> (Inl e, close db1)
           | Inr db2 \<Rightarrow> (Inr song, close (commit db2))))"

text \<open>The loop \<^verbatim>\<open>for t in song.translations\<close> of \<^verbatim>\<open>update_song\<close>.\<close>

fun upsert_translations :: "string \<Rightarrow> Translation list \<Rightarrow> conn \<Rightarrow> conn" where
  "upsert_translations sn [] db = db"
| "upsert_translations sn (t # ts) db =
     upsert_translations sn ts (sql_upsert_translation (sn, language t, title t, text_tr t) db)"

text \<open>
  \<^verbatim>\<open>PATCH /songs/{song_number}\<close>. A column is put into the UPDATE when its field is truthy;
  the final \<^verbatim>\<open>get_song(song_number)\<close> reads the committed store on a connection of its own.
\<close>

definition update_song :: "string \<Rightarrow> SongUpdate \<Rightarrow> store \<Rightarrow> (error + Song) \<times> store" where
  "update_song sn song s =
     (let db = connect s in
      if sql_select_song sn db = None
      then (Inl (HTTPException 404 ''Song not found''), close db)
      else
        let db1 = (if truthy (upd_title_ta song) \<or> truthy (upd_text_ta song)
                   then sql_update_songs
                          (if truthy (upd_title_ta song) then upd_title_ta song else None)
                          (if truthy (upd_text_ta song) then upd_text_ta song else None)
                          sn db
                   else db);
            db2 = (if truthy (upd_translations song)
                   then (case upd_translations song of
                           Some ts \<Rightarrow> upsert_translations sn ts db1
                         | None \<Rightarrow> db1)
                   else db1);
            s' = close (commit db2)
        in (get_song sn None s', s'))"

text \<open>\<^verbatim>\<open>DELETE /songs/{song_number}\<close>: no existence check, always 204.\<close>

definition delete_song :: "string \<Rightarrow> store \<Rightarrow> store" where
  "delete_song sn s = close (commit (sql_delete_song sn (connect s)))"

subsection \<open>The bootstrap loader\<close>

text \<open>
  An item of \<^verbatim>\<open>data.json\<close> is a JSON object with the keys \<^verbatim>\<open>song_number\<close>, \<^verbatim>\<open>title_ta\<close>,
  \<^verbatim>\<open>text_ta\<close> and, optionally, \<^verbatim>\<open>translations\<close> (\<^verbatim>\<open>item.get('translations', [])\<close>), all
  strings. The seed file is \<open>None\<close> when \<^verbatim>\<open>os.path.exists(DATA_FILE)\<close> is false.
\<close>

record seed_item =
  item_song_number :: string
  item_title_ta :: string
  item_text_ta :: string
  item_translations :: "Translation list option"

fun load_translations :: "string \<Rightarrow> Translation list \<Rightarrow> conn \<Rightarrow> conn" where
  "load_translations sn [] db = db"
| "load_translations sn (t # ts) db =
     load_translations sn ts
       (sql_insert_or_ignore_translation (sn, language t, title t, text_tr t) db)"

fun load_items :: "seed_item list \<Rightarrow> conn \<Rightarrow> conn" where
  "load_items [] db = db"
| "load_items (item # items) db =
     load_items items
       (load_translations (item_song_number item)
          (case item_translations item of Some ts \<Rightarrow> ts | None \<Rightarrow> [])
          (sql_insert_or_ignore_song
             (item_song_number item, item_title_ta item, item_text_ta item) db))"

definition load_initial_data :: "seed_item list option \<Rightarrow> store \<Rightarrow> store" where
  "load_initial_data file s =
     (case file of
        None \<Rightarrow> s
      | Some data \<Rightarrow> close (commit (load_items data (connect s))))"

subsection \<open>Sequences of requests\<close>

text \<open>
  The state-changing entry points of the service, and the store after a sequence of them,
  starting from the tables \<^verbatim>\<open>init_db\<close> creates in a new database file.
\<close>

datatype request =
    Load "seed_item list option"
  | Post Song
  | Patch string SongUpdate
  | Delete string

fun step :: "store \<Rightarrow> request \<Rightarrow> store" where
  "step s (Load file) = load_initial_data file s"
| "step s (Post song) = snd (create_song song s)"
| "step s (Patch sn body) = snd (update_song sn body s)"
| "step s (Delete sn) = delete_song sn s"

definition run :: "request list \<Rightarrow> store" where
  "run reqs = foldl step (init_db None) reqs"

text \<open>Whether a song is in the store, and the constraints of the schema.\<close>

definition song_exists :: "string \<Rightarrow> store \<Rightarrow> bool" where
  "song_exists sn s = (sn \<in> set (map fst (songs_tbl s)))"

definition schema_ok :: "store \<Rightarrow> bool" where
  "schema_ok s = (distinct (map fst (songs_tbl s)) \<and> distinct (map tr_key (translations_tbl s)))"

subsection \<open>Auxiliary notions for the statements\<close>

text \<open>
  What lines 154 to 164 of \<^verbatim>\<open>update_song\<close> do to one row of \<^verbatim>\<open>songs\<close>: the row of the song
  takes each primary-language field of the request that is truthy, every other row stays.
\<close>

definition patched_row :: "string \<Rightarrow> SongUpdate \<Rightarrow> song_row \<Rightarrow> song_row" where
  "patched_row sn body r =
     (if fst r = sn
      then (fst r,
            (case upd_title_ta body of Some v \<Rightarrow> if v \<noteq> [] then v else fst (snd r)
                                      | None \<Rightarrow> fst (snd r)),
            (case upd_text_ta body of Some v \<Rightarrow> if v \<noteq> [] then v else snd (snd r)
                                     | None \<Rightarrow> snd (snd r)))
      else r)"

text \<open>
  A translation row is mentioned by a PATCH of song \<open>sn\<close> when it belongs to \<open>sn\<close> and its
  language occurs among the translations of the request body.
\<close>

definition mentioned :: "string \<Rightarrow> SongUpdate \<Rightarrow> translation_row \<Rightarrow> bool" where
  "mentioned sn body r =
     (fst r = sn \<and>
      fst (snd r) \<in> set (map language (case upd_translations body of Some ts \<Rightarrow> ts | None \<Rightarrow> [])))"

text \<open>The \<open>(song_number, language)\<close> pairs a seed item asks for.\<close>

definition item_keys :: "seed_item \<Rightarrow> (string \<times> string) set" where
  "item_keys item = (\<lambda>t. (item_song_number item, language t)) `
      set (case item_translations item of Some ts \<Rightarrow> ts | None \<Rightarrow> [])"

text \<open>Sample data for the concrete instances below.\<close>

abbreviation sample_en :: Translation where
  "sample_en \<equiv> \<lparr>language = ''en'', title = ''Hymn'', text_tr = ''Words''\<rparr>"

abbreviation sample_en2 :: Translation where
  "sample_en2 \<equiv> \<lparr>language = ''en'', title = ''Hymn 2'', text_tr = ''Words 2''\<rparr>"

abbreviation sample_fr :: Translation where
  "sample_fr \<equiv> \<lparr>language = ''fr'', title = ''Hymne'', text_tr = ''Paroles''\<rparr>"

abbreviation sample_song :: "Translation list \<Rightarrow> Song" where
  "sample_song ts \<equiv>
     \<lparr>song_number = ''S1'', title_ta = ''Paadal'', text_ta = ''Varigal'', translations_of = ts\<rparr>"

section \<open>Unknown song numbers\<close>

lemma find_None_iff_not_exists:
  "(find (\<lambda>r. fst r = sn) rows = None) = (sn \<notin> fst ` set rows)"
  by (induction rows) auto

lemma find_absent: "sn \<notin> fst ` set rows \<Longrightarrow> find (\<lambda>r. fst r = sn) rows = None"
  by (simp add: find_None_iff_not_exists)

lemma get_song_unknown:
  "\<not> song_exists sn s \<Longrightarrow> get_song sn lang s = Inl (HTTPException 404 ''Song not found'')"
  by (simp add: get_song_def sql_select_song_def connect_def song_exists_def find_absent)

lemma update_song_unknown:
  "\<not> song_exists sn s \<Longrightarrow>
   update_song sn body s = (Inl (HTTPException 404 ''Song not found''), s)"
  by (simp add: update_song_def sql_select_song_def connect_def close_def song_exists_def
      find_absent)

text \<open>
  C5: for a song number that is not in the store, \<^verbatim>\<open>GET /songs/S\<close> and \<^verbatim>\<open>PATCH /songs/S\<close>
  both fail with the HTTP exception 404, and the PATCH leaves the store unchanged.
\<close>

theorem unknown_song_not_found:
  assumes "\<not> song_exists sn s"
  shows "get_song sn lang s = Inl (HTTPException 404 ''Song not found'')
       \<and> update_song sn body s = (Inl (HTTPException 404 ''Song not found''), s)"
  using assms by (simp add: get_song_unknown update_song_unknown)

theorem unknown_song_not_found_witness:
  "\<not> song_exists ''ZZZ'' (run [Post (sample_song [sample_en])])
   \<and> get_song ''ZZZ'' None (run [Post (sample_song [sample_en])])
       = Inl (HTTPException 404 ''Song not found'')
   \<and> update_song ''ZZZ''
         \<lparr>upd_title_ta = Some ''t'', upd_text_ta = None, upd_translations = Some [sample_fr]\<rparr>
         (run [Post (sample_song [sample_en])])
       = (Inl (HTTPException 404 ''Song not found''), run [Post (sample_song [sample_en])])"
proof -
  have h: "\<not> song_exists ''ZZZ'' (run [Post (sample_song [sample_en])])"
    by (simp add: song_exists_def run_def init_db_def create_song_def sql_insert_song_def
        sql_insert_translation_def tr_key_def connect_def commit_def close_def)
  show ?thesis using h unknown_song_not_found [OF h] by simp
qed

section \<open>Creating a song\<close>

text \<open>
  C6: when the song number of the request is already in the store, \<^verbatim>\<open>POST /songs\<close> fails with
  the HTTP exception 400 and the store, so also the existing row of that song, is unchanged.
\<close>

theorem create_existing_conflict:
  assumes "song_exists (song_number song) s"
  shows "create_song song s = (Inl (HTTPException 400 ''Song already exists''), s)"
  using assms
  by (simp add: create_song_def sql_insert_song_def connect_def close_def song_exists_def)

theorem create_existing_conflict_witness:
  "song_exists ''S1'' (run [Post (sample_song [sample_en])])
   \<and> create_song (sample_song [sample_fr]) (run [Post (sample_song [sample_en])])
       = (Inl (HTTPException 400 ''Song already exists''), run [Post (sample_song [sample_en])])"
proof -
  have h: "song_exists (song_number (sample_song [sample_fr])) (run [Post (sample_song [sample_en])])"
    by (simp add: song_exists_def run_def init_db_def create_song_def sql_insert_song_def
        sql_insert_translation_def tr_key_def connect_def commit_def close_def)
  show ?thesis using h create_existing_conflict [OF h] by simp
qed

lemma sql_insert_song_committed:
  "sql_insert_song r db = Inr db1 \<Longrightarrow> committed db1 = committed db"
  by (auto simp: sql_insert_song_def split: if_splits)

lemma insert_translations_error:
  "insert_translations sn ts db = Inl e \<Longrightarrow> e = IntegrityError"
  by (induction ts arbitrary: db)
     (auto simp: sql_insert_translation_def split: if_splits sum.splits)

lemma create_song_translation_failure:
  assumes "sql_insert_song (song_number song, title_ta song, text_ta song) (connect s) = Inr db1"
    and "insert_translations (song_number song) (translations_of song) db1 = Inl e"
  shows "create_song song s = (Inl IntegrityError, s)"
proof -
  have "committed db1 = s"
    using sql_insert_song_committed [OF assms(1)] by (simp add: connect_def)
  moreover have "e = IntegrityError"
    using assms(2) by (rule insert_translations_error)
  ultimately show ?thesis
    using assms by (simp add: create_song_def close_def)
qed

text \<open>
  C2, as stated: some request whose song INSERT succeeds and whose translation INSERT fails
  leaves the song row in the store. No request does: the IntegrityError leaves the handler
  before \<^verbatim>\<open>db.commit()\<close>, and the connection closes with the song INSERT uncommitted.
\<close>

theorem create_partial_state_counterexample:
  "\<not> (\<exists>song s db1 e.
        sql_insert_song (song_number song, title_ta song, text_ta song) (connect s) = Inr db1
      \<and> insert_translations (song_number song) (translations_of song) db1 = Inl e
      \<and> snd (create_song song s) \<noteq> s)"
  by (auto simp: create_song_translation_failure)

text \<open>
  C2, amended: for every request whose song INSERT succeeds and whose translation INSERT
  fails (two translations with the same language in one payload, for example),
  \<^verbatim>\<open>POST /songs\<close> fails with the IntegrityError and the store is unchanged: it holds neither
  the song row nor any translation of the request.
\<close>

theorem create_failed_translation_discards_song:
  assumes "sql_insert_song (song_number song, title_ta song, text_ta song) (connect s) = Inr db1"
    and "insert_translations (song_number song) (translations_of song) db1 = Inl e"
  shows "create_song song s = (Inl IntegrityError, s)"
  using assms by (rule create_song_translation_failure)

theorem create_failed_translation_discards_song_witness:
  "create_song (sample_song [sample_en, sample_en2]) (init_db None)
     = (Inl IntegrityError, init_db None)"
proof -
  let ?song = "sample_song [sample_en, sample_en2]"
  let ?db1 = "\<lparr>committed = init_db None,
              working = \<lparr>songs_tbl = [(''S1'', ''Paadal'', ''Varigal'')], translations_tbl = []\<rparr>,
              foreign_keys = False\<rparr>"
  have h1: "sql_insert_song (song_number ?song, title_ta ?song, text_ta ?song)
              (connect (init_db None)) = Inr ?db1"
    by (simp add: sql_insert_song_def connect_def init_db_def)
  have h2: "insert_translations (song_number ?song) (translations_of ?song) ?db1
              = Inl IntegrityError"
    by (simp add: sql_insert_translation_def tr_key_def)
  show ?thesis using create_failed_translation_discards_song [OF h1 h2] .
qed

section \<open>Deleting a song\<close>

lemmas store_eval =
  run_def init_db_def create_song_def update_song_def delete_song_def load_initial_data_def
  get_song_def get_songs_def collect_translations_def to_Translation_def
  sql_insert_song_def sql_insert_translation_def sql_insert_or_ignore_song_def
  sql_insert_or_ignore_translation_def sql_delete_song_def sql_select_song_def
  sql_select_translations_def sql_select_translations_lang_def sql_upsert_translation_def
  sql_update_songs_def tr_key_def connect_def commit_def close_def song_exists_def

text \<open>
  C1, at the store that \<^verbatim>\<open>POST /songs\<close> of a song with two translations leaves:
  \<^verbatim>\<open>DELETE /songs/S1\<close> removes the song row, and both translation rows of \<^verbatim>\<open>S1\<close> remain.
  The handler runs the DELETE on a connection that does not enforce foreign keys, so the
  \<^verbatim>\<open>ON DELETE CASCADE\<close> of the schema does not act.
\<close>

theorem delete_song_leaves_translations:
  "delete_song ''S1'' (run [Post (sample_song [sample_en, sample_fr])])
     = \<lparr>songs_tbl = [],
        translations_tbl =
          [(''S1'', ''en'', ''Hymn'', ''Words''), (''S1'', ''fr'', ''Hymne'', ''Paroles'')]\<rparr>"
  by (simp add: store_eval)

text \<open>
  C10: after \<^verbatim>\<open>POST /songs\<close> of \<^verbatim>\<open>S1\<close> with an English translation and \<^verbatim>\<open>DELETE /songs/S1\<close>,
  the song is absent and its translation row is still in the store; \<^verbatim>\<open>POST /songs\<close> of
  \<^verbatim>\<open>S1\<close> with an empty translations list then succeeds, and \<^verbatim>\<open>GET /songs/S1\<close> returns the
  song with the leftover English translation.
\<close>

theorem recreated_song_shows_leftover_translations:
  "\<not> song_exists ''S1'' (run [Post (sample_song [sample_en]), Delete ''S1''])
   \<and> translations_tbl (run [Post (sample_song [sample_en]), Delete ''S1''])
       = [(''S1'', ''en'', ''Hymn'', ''Words'')]
   \<and> fst (create_song (sample_song []) (run [Post (sample_song [sample_en]), Delete ''S1'']))
       = Inr (sample_song [])
   \<and> get_song ''S1'' None
         (run [Post (sample_song [sample_en]), Delete ''S1'', Post (sample_song [])])
       = Inr (sample_song [sample_en])"
  by (simp add: store_eval)

section \<open>Partial update\<close>

lemma connect_simps [simp]:
  "working (connect s) = s" "committed (connect s) = s" "foreign_keys (connect s) = False"
  by (simp_all add: connect_def)

lemma sql_upsert_translation_frame [simp]:
  "songs_tbl (working (sql_upsert_translation r db)) = songs_tbl (working db)"
  "committed (sql_upsert_translation r db) = committed db"
  "foreign_keys (sql_upsert_translation r db) = foreign_keys db"
  by (simp_all add: sql_upsert_translation_def)

lemma upsert_translations_frame [simp]:
  "songs_tbl (working (upsert_translations sn ts db)) = songs_tbl (working db)"
  "committed (upsert_translations sn ts db) = committed db"
  "foreign_keys (upsert_translations sn ts db) = foreign_keys db"
  by (induction ts arbitrary: db) simp_all

lemma sql_upsert_translation_working_cong:
  "translations_tbl (working db) = translations_tbl (working db') \<Longrightarrow>
   translations_tbl (working (sql_upsert_translation r db))
     = translations_tbl (working (sql_upsert_translation r db'))"
  by (simp add: sql_upsert_translation_def)

lemma upsert_translations_working_cong:
  "translations_tbl (working db) = translations_tbl (working db') \<Longrightarrow>
   translations_tbl (working (upsert_translations sn ts db))
     = translations_tbl (working (upsert_translations sn ts db'))"
proof (induction ts arbitrary: db db')
  case Nil
  then show ?case by simp
next
  case (Cons t ts)
  show ?case
    unfolding upsert_translations.simps
    by (rule Cons.IH) (rule sql_upsert_translation_working_cong [OF Cons.prems])
qed

lemma map_patched_row_id:
  "\<not> truthy (upd_title_ta body) \<Longrightarrow> \<not> truthy (upd_text_ta body) \<Longrightarrow>
   map (patched_row sn body) rows = rows"
  by (induction rows) (auto simp: patched_row_def split: option.splits)

lemma sql_update_songs_patched:
  "truthy (upd_title_ta body) \<or> truthy (upd_text_ta body) \<Longrightarrow>
   sql_update_songs
     (if truthy (upd_title_ta body) then upd_title_ta body else None)
     (if truthy (upd_text_ta body) then upd_text_ta body else None) sn db
   = db\<lparr>working := (working db)\<lparr>songs_tbl := map (patched_row sn body) (songs_tbl (working db))\<rparr>\<rparr>"
  by (cases "upd_title_ta body"; cases "upd_text_ta body")
     (auto simp: sql_update_songs_def patched_row_def fun_eq_iff split: prod.splits
           intro!: arg_cong[where f="\<lambda>f. map f _"])

lemma update_song_store:
  assumes "song_exists sn s"
  shows "snd (update_song sn body s) =
     \<lparr>songs_tbl = map (patched_row sn body) (songs_tbl s),
      translations_tbl = translations_tbl (working (upsert_translations sn
         (case upd_translations body of Some ts \<Rightarrow> ts | None \<Rightarrow> []) (connect s)))\<rparr>"
proof -
  have ex: "sql_select_song sn (connect s) \<noteq> None"
    using assms
    by (simp add: sql_select_song_def song_exists_def find_None_iff_not_exists)
  show ?thesis
  proof (cases "truthy (upd_title_ta body) \<or> truthy (upd_text_ta body)")
    case True
    have cong: "\<And>ts. translations_tbl (working (upsert_translations sn ts
                   ((connect s)\<lparr>working := s\<lparr>songs_tbl := map (patched_row sn body) (songs_tbl s)\<rparr>\<rparr>)))
               = translations_tbl (working (upsert_translations sn ts (connect s)))"
      by (rule upsert_translations_working_cong) simp
    show ?thesis
      using ex True
      by (cases "upd_translations body")
         (auto simp: update_song_def Let_def sql_update_songs_patched cong
            commit_def close_def intro!: store.equality)
  next
    case False
    then show ?thesis
      using ex
      by (cases "upd_translations body")
         (auto simp: update_song_def Let_def map_patched_row_id commit_def close_def
            intro!: store.equality)
  qed
qed

lemma update_song_result:
  assumes "song_exists sn s"
  shows "fst (update_song sn body s) = get_song sn None (snd (update_song sn body s))"
proof -
  have "sql_select_song sn (connect s) \<noteq> None"
    using assms
    by (simp add: sql_select_song_def song_exists_def find_None_iff_not_exists)
  then obtain r where "sql_select_song sn (connect s) = Some r"
    by blast
  then show ?thesis
    by (simp add: update_song_def Let_def)
qed

lemma find_map_patched_row:
  "find (\<lambda>r. fst r = sn) (map (patched_row sn body) rows)
     = map_option (patched_row sn body) (find (\<lambda>r. fst r = sn) rows)"
  by (induction rows) (auto simp: patched_row_def)

lemma get_song_exists:
  assumes "song_exists sn s"
  shows "\<exists>ti te. find (\<lambda>r. fst r = sn) (songs_tbl s) = Some (sn, ti, te)
          \<and> get_song sn lang s = Inr \<lparr>song_number = sn, title_ta = ti, text_ta = te,
               translations_of = collect_translations sn lang (connect s)\<rparr>"
proof -
  have "find (\<lambda>r. fst r = sn) (songs_tbl s) \<noteq> None"
    using assms by (simp add: song_exists_def find_None_iff_not_exists)
  then obtain r where r: "find (\<lambda>r. fst r = sn) (songs_tbl s) = Some r"
    by blast
  then have "fst r = sn"
    by (auto simp: find_Some_iff)
  then obtain ti te where "r = (sn, ti, te)"
    by (cases r) auto
  with r show ?thesis
    by (simp add: get_song_def sql_select_song_def)
qed

lemma song_exists_after_update:
  "song_exists sn s \<Longrightarrow> song_exists sn (snd (update_song sn body s))"
  by (force simp: update_song_store song_exists_def patched_row_def)

text \<open>
  C8: for an existing song, a PATCH that sets \<^verbatim>\<open>title_ta\<close> (or \<^verbatim>\<open>text_ta\<close>) to the empty string
  gives the same result and the same store as the request without that field; the column is
  unchanged in every row of the store, and the returned Song carries the value that
  \<^verbatim>\<open>GET /songs/S\<close> returned before the PATCH.
\<close>

theorem empty_string_is_absent:
  assumes "song_exists sn s"
  shows "update_song sn (body\<lparr>upd_title_ta := Some ''''\<rparr>) s
           = update_song sn (body\<lparr>upd_title_ta := None\<rparr>) s
       \<and> update_song sn (body\<lparr>upd_text_ta := Some ''''\<rparr>) s
           = update_song sn (body\<lparr>upd_text_ta := None\<rparr>) s
       \<and> map (\<lambda>r. (fst r, fst (snd r)))
             (songs_tbl (snd (update_song sn (body\<lparr>upd_title_ta := Some ''''\<rparr>) s)))
           = map (\<lambda>r. (fst r, fst (snd r))) (songs_tbl s)
       \<and> map (\<lambda>r. (fst r, snd (snd r)))
             (songs_tbl (snd (update_song sn (body\<lparr>upd_text_ta := Some ''''\<rparr>) s)))
           = map (\<lambda>r. (fst r, snd (snd r))) (songs_tbl s)
       \<and> (\<exists>before after.
             get_song sn None s = Inr before
           \<and> fst (update_song sn (body\<lparr>upd_title_ta := Some ''''\<rparr>) s) = Inr after
           \<and> title_ta after = title_ta before)
       \<and> (\<exists>before after.
             get_song sn None s = Inr before
           \<and> fst (update_song sn (body\<lparr>upd_text_ta := Some ''''\<rparr>) s) = Inr after
           \<and> text_ta after = text_ta before)"
proof (intro conjI)
  show "update_song sn (body\<lparr>upd_title_ta := Some ''''\<rparr>) s
          = update_song sn (body\<lparr>upd_title_ta := None\<rparr>) s"
    by (simp add: update_song_def Let_def cong: if_cong)
  show "update_song sn (body\<lparr>upd_text_ta := Some ''''\<rparr>) s
          = update_song sn (body\<lparr>upd_text_ta := None\<rparr>) s"
    by (simp add: update_song_def Let_def cong: if_cong)
  show "map (\<lambda>r. (fst r, fst (snd r)))
          (songs_tbl (snd (update_song sn (body\<lparr>upd_title_ta := Some ''''\<rparr>) s)))
        = map (\<lambda>r. (fst r, fst (snd r))) (songs_tbl s)"
    by (simp add: update_song_store [OF assms] patched_row_def)
  show "map (\<lambda>r. (fst r, snd (snd r)))
          (songs_tbl (snd (update_song sn (body\<lparr>upd_text_ta := Some ''''\<rparr>) s)))
        = map (\<lambda>r. (fst r, snd (snd r))) (songs_tbl s)"
    by (simp add: update_song_store [OF assms] patched_row_def)
  obtain ti te where old: "find (\<lambda>r. fst r = sn) (songs_tbl s) = Some (sn, ti, te)"
    and before: "get_song sn None s = Inr \<lparr>song_number = sn, title_ta = ti, text_ta = te,
               translations_of = collect_translations sn None (connect s)\<rparr>"
    using get_song_exists [OF assms, of None] by blast
  show "\<exists>before after.
             get_song sn None s = Inr before
           \<and> fst (update_song sn (body\<lparr>upd_title_ta := Some ''''\<rparr>) s) = Inr after
           \<and> title_ta after = title_ta before"
    using old before
    by (simp add: update_song_result [OF assms] update_song_store [OF assms]
        get_song_def sql_select_song_def find_map_patched_row patched_row_def)
  show "\<exists>before after.
             get_song sn None s = Inr before
           \<and> fst (update_song sn (body\<lparr>upd_text_ta := Some ''''\<rparr>) s) = Inr after
           \<and> text_ta after = text_ta before"
    using old before
    by (simp add: update_song_result [OF assms] update_song_store [OF assms]
        get_song_def sql_select_song_def find_map_patched_row patched_row_def)
qed

theorem empty_string_is_absent_witness:
  "song_exists ''S1'' (run [Post (sample_song [sample_en])])
   \<and> update_song ''S1''
         \<lparr>upd_title_ta = Some '''', upd_text_ta = Some ''new text'', upd_translations = None\<rparr>
         (run [Post (sample_song [sample_en])])
       = update_song ''S1''
         \<lparr>upd_title_ta = None, upd_text_ta = Some ''new text'', upd_translations = None\<rparr>
         (run [Post (sample_song [sample_en])])
   \<and> update_song ''S1''
         \<lparr>upd_title_ta = None, upd_text_ta = Some ''new text'', upd_translations = None\<rparr>
         (run [Post (sample_song [sample_en])])
       = (Inr \<lparr>song_number = ''S1'', title_ta = ''Paadal'', text_ta = ''new text'',
               translations_of = [sample_en]\<rparr>,
          \<lparr>songs_tbl = [(''S1'', ''Paadal'', ''new text'')],
           translations_tbl = [(''S1'', ''en'', ''Hymn'', ''Words'')]\<rparr>)"
proof -
  let ?s = "run [Post (sample_song [sample_en])]"
  let ?b = "\<lparr>upd_title_ta = None, upd_text_ta = Some ''new text'', upd_translations = None\<rparr>"
  have s: "?s = \<lparr>songs_tbl = [(''S1'', ''Paadal'', ''Varigal'')],
                 translations_tbl = [(''S1'', ''en'', ''Hymn'', ''Words'')]\<rparr>"
    by (simp add: run_def init_db_def create_song_def sql_insert_song_def
        sql_insert_translation_def tr_key_def connect_def commit_def close_def)
  have h: "song_exists ''S1'' ?s"
    by (simp add: s song_exists_def)
  have same: "update_song ''S1'' (?b\<lparr>upd_title_ta := Some ''''\<rparr>) ?s
                = update_song ''S1'' (?b\<lparr>upd_title_ta := None\<rparr>) ?s"
    using empty_string_is_absent [OF h, of ?b] by blast
  have val: "update_song ''S1'' ?b ?s
       = (Inr \<lparr>song_number = ''S1'', title_ta = ''Paadal'', text_ta = ''new text'',
               translations_of = [sample_en]\<rparr>,
          \<lparr>songs_tbl = [(''S1'', ''Paadal'', ''new text'')],
           translations_tbl = [(''S1'', ''en'', ''Hymn'', ''Words'')]\<rparr>)"
    by (simp add: s update_song_def Let_def get_song_def sql_select_song_def
        sql_update_songs_def collect_translations_def sql_select_translations_def
        to_Translation_def commit_def close_def)
  show ?thesis
    using h same val by simp
qed

lemma sql_upsert_translation_others:
  assumes "tr_key r \<in> K"
  shows "filter (\<lambda>x. tr_key x \<notin> K) (translations_tbl (working (sql_upsert_translation r db)))
       = filter (\<lambda>x. tr_key x \<notin> K) (translations_tbl (working db))"
proof -
  have "filter (\<lambda>x. tr_key x \<notin> K) (map (\<lambda>old. if tr_key old = tr_key r then r else old) rows)
      = filter (\<lambda>x. tr_key x \<notin> K) rows" for rows
    using assms by (induction rows) auto
  then show ?thesis
    using assms by (simp add: sql_upsert_translation_def)
qed

lemma upsert_translations_others:
  assumes "(\<lambda>t. (sn, language t)) ` set ts \<subseteq> K"
  shows "filter (\<lambda>x. tr_key x \<notin> K) (translations_tbl (working (upsert_translations sn ts db)))
       = filter (\<lambda>x. tr_key x \<notin> K) (translations_tbl (working db))"
  using assms
proof (induction ts arbitrary: db)
  case Nil
  then show ?case by simp
next
  case (Cons t ts)
  have "tr_key (sn, language t, title t, text_tr t) \<in> K"
    using Cons.prems by (simp add: tr_key_def)
  then show ?case
    using Cons by (simp add: sql_upsert_translation_others)
qed

lemma mentioned_alt:
  "mentioned sn body r = (tr_key r \<in> (\<lambda>t. (sn, language t)) `
       set (case upd_translations body of Some ts \<Rightarrow> ts | None \<Rightarrow> []))"
  by (auto simp: mentioned_def tr_key_def)

lemma update_song_unmentioned:
  "filter (\<lambda>r. \<not> mentioned sn body r) (translations_tbl (snd (update_song sn body s)))
     = filter (\<lambda>r. \<not> mentioned sn body r) (translations_tbl s)"
proof (cases "song_exists sn s")
  case True
  show ?thesis
    unfolding mentioned_alt update_song_store [OF True]
    by (simp add: upsert_translations_others)
next
  case False
  then show ?thesis
    by (simp add: update_song_unknown)
qed

text \<open>
  C7, as stated: a PATCH whose body holds only \<^verbatim>\<open>text_ta\<close> updates \<^verbatim>\<open>text_ta\<close>. With the empty
  string as \<^verbatim>\<open>text_ta\<close> the test \<^verbatim>\<open>if song.title_ta or song.text_ta\<close> fails, no UPDATE is
  executed, and the stored and the returned \<^verbatim>\<open>text_ta\<close> stay \<^verbatim>\<open>Varigal\<close>.
\<close>

theorem patch_text_only_counterexample:
  "fst (update_song ''S1'' \<lparr>upd_title_ta = None, upd_text_ta = Some '''', upd_translations = None\<rparr>
         (run [Post (sample_song [sample_en])]))
     = Inr (sample_song [sample_en])
   \<and> songs_tbl (snd (update_song ''S1''
         \<lparr>upd_title_ta = None, upd_text_ta = Some '''', upd_translations = None\<rparr>
         (run [Post (sample_song [sample_en])])))
     = [(''S1'', ''Paadal'', ''Varigal'')]"
  by (simp add: run_def init_db_def create_song_def update_song_def get_song_def
      collect_translations_def to_Translation_def sql_insert_song_def sql_insert_translation_def
      sql_select_song_def sql_select_translations_def tr_key_def connect_def commit_def close_def)

text \<open>
  C7, amended: for an existing song, a PATCH whose body holds only a non-empty \<^verbatim>\<open>text_ta\<close>
  sets \<^verbatim>\<open>text_ta\<close> of that song and changes nothing else in the store (its \<^verbatim>\<open>title_ta\<close>, the
  other songs and all translation rows), and returns the Song that \<^verbatim>\<open>GET /songs/S\<close> returned
  before with the new \<^verbatim>\<open>text_ta\<close>; and after any PATCH the translation rows that the request
  body does not mention are the same rows as before.
\<close>

theorem patch_frame:
  assumes "song_exists sn s"
  shows "(v \<noteq> [] \<longrightarrow>
            snd (update_song sn
                   \<lparr>upd_title_ta = None, upd_text_ta = Some v, upd_translations = None\<rparr> s)
              = s\<lparr>songs_tbl :=
                    map (\<lambda>r. if fst r = sn then (fst r, fst (snd r), v) else r) (songs_tbl s)\<rparr>
          \<and> (\<exists>before after.
                get_song sn None s = Inr before
              \<and> fst (update_song sn
                   \<lparr>upd_title_ta = None, upd_text_ta = Some v, upd_translations = None\<rparr> s)
                  = Inr after
              \<and> after = before\<lparr>text_ta := v\<rparr>))
       \<and> filter (\<lambda>r. \<not> mentioned sn body r) (translations_tbl (snd (update_song sn body s)))
           = filter (\<lambda>r. \<not> mentioned sn body r) (translations_tbl s)"
proof (intro conjI impI)
  let ?b = "\<lparr>upd_title_ta = None, upd_text_ta = Some v, upd_translations = None\<rparr>"
  assume v: "v \<noteq> []"
  have rows: "map (patched_row sn ?b) (songs_tbl s)
            = map (\<lambda>r. if fst r = sn then (fst r, fst (snd r), v) else r) (songs_tbl s)"
    using v by (simp add: patched_row_def)
  show store: "snd (update_song sn ?b s)
      = s\<lparr>songs_tbl := map (\<lambda>r. if fst r = sn then (fst r, fst (snd r), v) else r) (songs_tbl s)\<rparr>"
    by (simp add: update_song_store [OF assms] rows)
  obtain ti te where old: "find (\<lambda>r. fst r = sn) (songs_tbl s) = Some (sn, ti, te)"
    and before: "get_song sn None s = Inr \<lparr>song_number = sn, title_ta = ti, text_ta = te,
               translations_of = collect_translations sn None (connect s)\<rparr>"
    using get_song_exists [OF assms, of None] by blast
  have "find (\<lambda>r. fst r = sn) (map (patched_row sn ?b) (songs_tbl s)) = Some (sn, ti, v)"
    using old v by (simp add: find_map_patched_row patched_row_def)
  then have "get_song sn None (snd (update_song sn ?b s))
      = Inr \<lparr>song_number = sn, title_ta = ti, text_ta = v,
             translations_of = collect_translations sn None (connect s)\<rparr>"
    by (simp add: update_song_store [OF assms] get_song_def sql_select_song_def
        collect_translations_def sql_select_translations_def)
  then show "\<exists>before after.
                get_song sn None s = Inr before
              \<and> fst (update_song sn ?b s) = Inr after
              \<and> after = before\<lparr>text_ta := v\<rparr>"
    using before by (simp add: update_song_result [OF assms])
next
  show "filter (\<lambda>r. \<not> mentioned sn body r) (translations_tbl (snd (update_song sn body s)))
           = filter (\<lambda>r. \<not> mentioned sn body r) (translations_tbl s)"
    by (rule update_song_unmentioned)
qed

theorem patch_frame_witness:
  "song_exists ''S1'' (run [Post (sample_song [sample_en, sample_fr])])
   \<and> update_song ''S1'' \<lparr>upd_title_ta = None, upd_text_ta = Some ''new text'', upd_translations = None\<rparr>
       (run [Post (sample_song [sample_en, sample_fr])])
     = (Inr \<lparr>song_number = ''S1'', title_ta = ''Paadal'', text_ta = ''new text'',
             translations_of = [sample_en, sample_fr]\<rparr>,
        \<lparr>songs_tbl = [(''S1'', ''Paadal'', ''new text'')],
         translations_tbl = [(''S1'', ''en'', ''Hymn'', ''Words''), (''S1'', ''fr'', ''Hymne'', ''Paroles'')]\<rparr>)
   \<and> filter (\<lambda>r. \<not> mentioned ''S1''
                 \<lparr>upd_title_ta = None, upd_text_ta = None, upd_translations = Some [sample_en2]\<rparr> r)
        (translations_tbl (snd (update_song ''S1''
           \<lparr>upd_title_ta = None, upd_text_ta = None, upd_translations = Some [sample_en2]\<rparr>
           (run [Post (sample_song [sample_en, sample_fr])]))))
     = [(''S1'', ''fr'', ''Hymne'', ''Paroles'')]"
proof -
  let ?s = "run [Post (sample_song [sample_en, sample_fr])]"
  have s: "?s = \<lparr>songs_tbl = [(''S1'', ''Paadal'', ''Varigal'')],
         translations_tbl = [(''S1'', ''en'', ''Hymn'', ''Words''), (''S1'', ''fr'', ''Hymne'', ''Paroles'')]\<rparr>"
    by (simp add: run_def init_db_def create_song_def sql_insert_song_def
        sql_insert_translation_def tr_key_def connect_def commit_def close_def)
  have h: "song_exists ''S1'' ?s"
    by (simp add: s song_exists_def)
  have g: "get_song ''S1'' None ?s = Inr (sample_song [sample_en, sample_fr])"
    by (simp add: s get_song_def sql_select_song_def collect_translations_def
        sql_select_translations_def to_Translation_def)
  show ?thesis
    using h g patch_frame [OF h, of "''new text''"
        "\<lparr>upd_title_ta = None, upd_text_ta = None, upd_translations = Some [sample_en2]\<rparr>"]
    by (auto simp: s mentioned_def prod_eq_iff)
qed

section \<open>Listing songs\<close>

lemma distinct_key_filter_le1:
  "distinct (map f xs) \<Longrightarrow> length (filter (\<lambda>r. f r = k) xs) \<le> Suc 0"
proof (induction xs)
  case Nil
  then show ?case by simp
next
  case (Cons a xs)
  show ?case
  proof (cases "f a = k")
    case True
    then have "k \<notin> f ` set xs"
      using Cons.prems by auto
    then have "filter (\<lambda>r. f r = k) xs = []"
      by (auto simp: filter_empty_conv)
    with True show ?thesis by simp
  next
    case False
    then show ?thesis using Cons by simp
  qed
qed

lemma select_lang_is_filtered_select:
  "map to_Translation (sql_select_translations_lang sn x db)
     = filter (\<lambda>t. language t = x) (map to_Translation (sql_select_translations sn db))"
proof -
  let ?rows = "filter (\<lambda>r. fst r = sn) (translations_tbl (working db))"
  have stable: "filter (\<lambda>r. fst (snd r) = x) (sort_key (\<lambda>r. fst (snd r)) ?rows)
          = filter (\<lambda>r. fst (snd r) = x) ?rows"
    by (rule sort_key_stable)
  have "filter (\<lambda>t. language t = x) (map to_Translation (sql_select_translations sn db))
          = map to_Translation
              (map snd (filter (\<lambda>r. fst (snd r) = x) (sort_key (\<lambda>r. fst (snd r)) ?rows)))"
    by (simp add: sql_select_translations_def filter_map comp_def to_Translation_def)
  also have "\<dots> = map to_Translation (map snd (filter (\<lambda>r. fst (snd r) = x) ?rows))"
    by (simp only: stable)
  also have "\<dots> = map to_Translation (sql_select_translations_lang sn x db)"
    by (simp add: sql_select_translations_lang_def)
  finally show ?thesis
    by simp
qed

lemma select_lang_le1:
  assumes "distinct (map tr_key (translations_tbl (working db)))"
  shows "length (sql_select_translations_lang sn x db) \<le> Suc 0"
proof -
  have "(\<lambda>r. fst r = sn \<and> fst (snd r) = x) = (\<lambda>r. tr_key r = (sn, x))"
    by (auto simp: tr_key_def)
  then show ?thesis
    using distinct_key_filter_le1 [OF assms, of "(sn, x)"]
    by (simp add: sql_select_translations_lang_def)
qed

text \<open>
  C4, as stated: \<^verbatim>\<open>GET /songs?language=X\<close> filters the translations to the language X. With
  the empty string as X the test \<^verbatim>\<open>if language\<close> fails and every translation is returned,
  though none of them has the empty language.
\<close>

theorem list_songs_empty_language_counterexample:
  "get_songs (Some '''') (run [Post (sample_song [sample_en, sample_fr])])
     = [sample_song [sample_en, sample_fr]]"
  by (simp add: run_def init_db_def create_song_def get_songs_def
      collect_translations_def to_Translation_def sql_insert_song_def sql_insert_translation_def
      sql_select_translations_def tr_key_def connect_def commit_def close_def)

text \<open>
  C4, amended: on a store that satisfies the constraints of the schema, \<^verbatim>\<open>GET /songs\<close> returns
  every song with its primary fields, whatever the language parameter; for a non-empty X,
  \<^verbatim>\<open>GET /songs?language=X\<close> returns what \<^verbatim>\<open>GET /songs\<close> returns with each translation list
  filtered to the entries of language X, at most one per song; with an empty X it returns what
  \<^verbatim>\<open>GET /songs\<close> returns; and \<^verbatim>\<open>GET /songs\<close> gives every song all the translation rows
  that carry its song number, each row once and in no stated order.
\<close>

theorem list_songs_language_filter:
  assumes "schema_ok s"
  shows "map (\<lambda>g. (song_number g, title_ta g, text_ta g)) (get_songs lang s) = songs_tbl s
       \<and> (x \<noteq> [] \<longrightarrow>
            get_songs (Some x) s
              = map (\<lambda>g. g\<lparr>translations_of := filter (\<lambda>t. language t = x) (translations_of g)\<rparr>)
                    (get_songs None s)
          \<and> list_all (\<lambda>g. length (translations_of g) \<le> 1) (get_songs (Some x) s))
       \<and> get_songs (Some '''') s = get_songs None s
       \<and> map (\<lambda>g. mset (translations_of g)) (get_songs None s)
           = map (\<lambda>r. mset (map (\<lambda>t. \<lparr>language = fst (snd t), title = fst (snd (snd t)),
                                        text_tr = snd (snd (snd t))\<rparr>)
                               (filter (\<lambda>t. fst t = fst r) (translations_tbl s))))
                 (songs_tbl s)"
proof (intro conjI impI)
  show "map (\<lambda>g. (song_number g, title_ta g, text_ta g)) (get_songs lang s) = songs_tbl s"
    by (simp add: get_songs_def comp_def case_prod_beta)
  show "get_songs (Some '''') s = get_songs None s"
    by (simp add: get_songs_def collect_translations_def)
  have rows: "mset (map to_Translation (sql_select_translations sn (connect s)))
        = mset (map (\<lambda>t. \<lparr>language = fst (snd t), title = fst (snd (snd t)),
                            text_tr = snd (snd (snd t))\<rparr>)
                    (filter (\<lambda>t. fst t = sn) (translations_tbl s)))" for sn
  proof -
    have "mset (sort_key (\<lambda>r. fst (snd r)) (filter (\<lambda>t. fst t = sn) (translations_tbl s)))
            = mset (filter (\<lambda>t. fst t = sn) (translations_tbl s))"
      by (rule mset_sort)
    then have "mset (map (\<lambda>t. to_Translation (snd t))
                  (sort_key (\<lambda>r. fst (snd r)) (filter (\<lambda>t. fst t = sn) (translations_tbl s))))
            = mset (map (\<lambda>t. to_Translation (snd t))
                  (filter (\<lambda>t. fst t = sn) (translations_tbl s)))"
      by (simp only: mset_map)
    then show ?thesis
      by (simp add: sql_select_translations_def to_Translation_def comp_def connect_def)
  qed
  show "map (\<lambda>g. mset (translations_of g)) (get_songs None s)
           = map (\<lambda>r. mset (map (\<lambda>t. \<lparr>language = fst (snd t), title = fst (snd (snd t)),
                                        text_tr = snd (snd (snd t))\<rparr>)
                               (filter (\<lambda>t. fst t = fst r) (translations_tbl s))))
                 (songs_tbl s)"
    by (simp add: get_songs_def collect_translations_def comp_def case_prod_beta rows
        del: mset_map mset_filter)
next
  assume x: "x \<noteq> []"
  show "get_songs (Some x) s
          = map (\<lambda>g. g\<lparr>translations_of := filter (\<lambda>t. language t = x) (translations_of g)\<rparr>)
                (get_songs None s)"
    using x
    by (simp add: get_songs_def collect_translations_def select_lang_is_filtered_select
        comp_def case_prod_beta)
  have "distinct (map tr_key (translations_tbl (working (connect s))))"
    using assms by (simp add: schema_ok_def)
  then show "list_all (\<lambda>g. length (translations_of g) \<le> 1) (get_songs (Some x) s)"
    using x
    by (simp add: get_songs_def collect_translations_def list_all_iff case_prod_beta
        select_lang_le1)
qed

theorem list_songs_language_filter_witness:
  "schema_ok (run [Post (sample_song [sample_fr, sample_en])])
   \<and> translations_tbl (run [Post (sample_song [sample_fr, sample_en])])
       = [(''S1'', ''fr'', ''Hymne'', ''Paroles''), (''S1'', ''en'', ''Hymn'', ''Words'')]
   \<and> get_songs (Some ''en'') (run [Post (sample_song [sample_fr, sample_en])])
       = [sample_song [sample_en]]
   \<and> get_songs None (run [Post (sample_song [sample_fr, sample_en])])
       = [sample_song [sample_en, sample_fr]]"
proof -
  let ?s = "run [Post (sample_song [sample_fr, sample_en])]"
  have s: "?s = \<lparr>songs_tbl = [(''S1'', ''Paadal'', ''Varigal'')],
         translations_tbl =
           [(''S1'', ''fr'', ''Hymne'', ''Paroles''), (''S1'', ''en'', ''Hymn'', ''Words'')]\<rparr>"
    by (simp add: run_def init_db_def create_song_def sql_insert_song_def
        sql_insert_translation_def tr_key_def connect_def commit_def close_def)
  have h: "schema_ok ?s"
    by (simp add: s schema_ok_def tr_key_def)
  have n: "get_songs None ?s = [sample_song [sample_en, sample_fr]]"
    by (simp add: s get_songs_def collect_translations_def sql_select_translations_def
        to_Translation_def)
  have "get_songs (Some ''en'') ?s
          = map (\<lambda>g. g\<lparr>translations_of := filter (\<lambda>t. language t = ''en'') (translations_of g)\<rparr>)
                (get_songs None ?s)"
    using list_songs_language_filter [OF h, of None "''en''"] by simp
  then show ?thesis
    using h n s by simp
qed

section \<open>Uniqueness of translations\<close>

lemma sql_upsert_translation_keys:
  "map tr_key (translations_tbl (working (sql_upsert_translation r db)))
     = (if tr_key r \<in> set (map tr_key (translations_tbl (working db)))
        then map tr_key (translations_tbl (working db))
        else map tr_key (translations_tbl (working db)) @ [tr_key r])"
proof -
  have "map tr_key (map (\<lambda>old. if tr_key old = tr_key r then r else old) rows) = map tr_key rows"
    for rows
    by (induction rows) auto
  then show ?thesis
    by (simp add: sql_upsert_translation_def)
qed

lemma sql_upsert_translation_distinct:
  "distinct (map tr_key (translations_tbl (working db))) \<Longrightarrow>
   distinct (map tr_key (translations_tbl (working (sql_upsert_translation r db))))"
  by (simp add: sql_upsert_translation_keys)

lemma upsert_translations_distinct:
  "distinct (map tr_key (translations_tbl (working db))) \<Longrightarrow>
   distinct (map tr_key (translations_tbl (working (upsert_translations sn ts db))))"
  by (induction ts arbitrary: db) (simp_all add: sql_upsert_translation_distinct)

lemma map_fst_patched_row: "map fst (map (patched_row sn body) rows) = map fst rows"
  by (induction rows) (auto simp: patched_row_def)

lemma schema_ok_update_song:
  assumes "schema_ok s"
  shows "schema_ok (snd (update_song sn body s))"
proof (cases "song_exists sn s")
  case True
  have "distinct (map tr_key (translations_tbl (working (connect s))))"
    using assms by (simp add: schema_ok_def)
  then show ?thesis
    using assms
    by (simp add: update_song_store [OF True] schema_ok_def map_fst_patched_row
        upsert_translations_distinct del: map_map)
next
  case False
  then show ?thesis
    using assms by (simp add: update_song_unknown)
qed

lemma insert_translations_schema:
  "insert_translations sn ts db = Inr db' \<Longrightarrow>
   distinct (map tr_key (translations_tbl (working db))) \<Longrightarrow>
   distinct (map tr_key (translations_tbl (working db')))
   \<and> songs_tbl (working db') = songs_tbl (working db)"
proof (induction ts arbitrary: db)
  case Nil
  then show ?case by simp
next
  case (Cons t ts)
  from Cons.prems(1) obtain db1 where
    one: "sql_insert_translation (sn, language t, title t, text_tr t) db = Inr db1"
    and rest: "insert_translations sn ts db1 = Inr db'"
    by (auto split: sum.splits)
  from one Cons.prems(2) have
    "distinct (map tr_key (translations_tbl (working db1)))"
    "songs_tbl (working db1) = songs_tbl (working db)"
    by (auto simp: sql_insert_translation_def split: if_splits)
  with Cons.IH [OF rest] show ?case by simp
qed

lemma schema_ok_create_song:
  assumes "schema_ok s"
  shows "schema_ok (snd (create_song song s))"
proof (cases "sql_insert_song (song_number song, title_ta song, text_ta song) (connect s)")
  case (Inl e)
  then show ?thesis
    using assms by (simp add: create_song_def close_def)
next
  case (Inr db1)
  then have db1: "distinct (map fst (songs_tbl (working db1)))"
      "distinct (map tr_key (translations_tbl (working db1)))" "committed db1 = s"
    using assms by (auto simp: sql_insert_song_def schema_ok_def split: if_splits)
  show ?thesis
  proof (cases "insert_translations (song_number song) (translations_of song) db1")
    case (Inl e)
    then show ?thesis
      using assms Inr db1 by (simp add: create_song_def close_def)
  next
    case (Inr db2)
    from insert_translations_schema [OF Inr db1(2)] db1(1)
    have "schema_ok (working db2)"
      by (simp add: schema_ok_def)
    then show ?thesis
      using \<open>sql_insert_song _ _ = Inr db1\<close> Inr
      by (simp add: create_song_def close_def commit_def)
  qed
qed

lemma schema_ok_delete_song:
  "schema_ok s \<Longrightarrow> schema_ok (delete_song sn s)"
  by (simp add: delete_song_def sql_delete_song_def schema_ok_def close_def commit_def
      distinct_map_filter)

lemma load_translations_schema:
  "distinct (map tr_key (translations_tbl (working db))) \<Longrightarrow>
   distinct (map tr_key (translations_tbl (working (load_translations sn ts db))))
   \<and> songs_tbl (working (load_translations sn ts db)) = songs_tbl (working db)"
proof (induction ts arbitrary: db)
  case Nil
  then show ?case by simp
next
  case (Cons t ts)
  let ?db1 = "sql_insert_or_ignore_translation (sn, language t, title t, text_tr t) db"
  have "distinct (map tr_key (translations_tbl (working ?db1)))"
       "songs_tbl (working ?db1) = songs_tbl (working db)"
    using Cons.prems by (auto simp: sql_insert_or_ignore_translation_def)
  with Cons.IH [of ?db1] show ?case by simp
qed

lemma load_items_schema:
  "schema_ok (working db) \<Longrightarrow> schema_ok (working (load_items items db))"
proof (induction items arbitrary: db)
  case Nil
  then show ?case by simp
next
  case (Cons item items)
  let ?db1 = "sql_insert_or_ignore_song
                (item_song_number item, item_title_ta item, item_text_ta item) db"
  let ?ts = "case item_translations item of Some ts \<Rightarrow> ts | None \<Rightarrow> []"
  have "schema_ok (working ?db1)"
    using Cons.prems by (auto simp: sql_insert_or_ignore_song_def schema_ok_def)
  then have "schema_ok (working (load_translations (item_song_number item) ?ts ?db1))"
    using load_translations_schema [of ?db1 "item_song_number item" ?ts]
    by (simp add: schema_ok_def)
  then show ?case
    using Cons.IH by simp
qed

lemma schema_ok_load_initial_data:
  "schema_ok s \<Longrightarrow> schema_ok (load_initial_data seed s)"
  using load_items_schema [of "connect s"]
  by (cases seed) (simp_all add: load_initial_data_def close_def commit_def)

lemma schema_ok_step: "schema_ok s \<Longrightarrow> schema_ok (step s req)"
  by (cases req)
     (simp_all add: schema_ok_load_initial_data schema_ok_create_song schema_ok_update_song
        schema_ok_delete_song)

lemma schema_ok_foldl_step: "schema_ok s \<Longrightarrow> schema_ok (foldl step s reqs)"
  by (induction reqs arbitrary: s) (simp_all add: schema_ok_step)

lemma schema_ok_run: "schema_ok (run reqs)"
  unfolding run_def
  by (rule schema_ok_foldl_step) (simp add: schema_ok_def init_db_def)

lemma find_append_cases:
  "find P (xs @ ys) = (case find P xs of None \<Rightarrow> find P ys | Some x \<Rightarrow> Some x)"
  by (induction xs) auto

lemma sql_upsert_translation_own_row:
  assumes "distinct (map tr_key (translations_tbl (working db)))"
  shows "filter (\<lambda>x. tr_key x = tr_key r) (translations_tbl (working (sql_upsert_translation r db)))
           = [r]"
proof (cases "tr_key r \<in> set (map tr_key (translations_tbl (working db)))")
  case True
  have "distinct (map tr_key rows) \<Longrightarrow> tr_key r \<in> set (map tr_key rows) \<Longrightarrow>
        filter (\<lambda>x. tr_key x = tr_key r)
          (map (\<lambda>old. if tr_key old = tr_key r then r else old) rows) = [r]" for rows
  proof (induction rows)
    case Nil
    then show ?case by simp
  next
    case (Cons a rows)
    show ?case
    proof (cases "tr_key a = tr_key r")
      case True
      from Cons.prems(1) have "tr_key a \<notin> tr_key ` set rows"
        by simp
      then have "tr_key r \<notin> tr_key ` set rows"
        by (simp add: True)
      then have none: "\<forall>x\<in>set rows. tr_key x \<noteq> tr_key r"
        by (metis imageI)
      then have "filter (\<lambda>x. tr_key x = tr_key r)
          (map (\<lambda>old. if tr_key old = tr_key r then r else old) rows) = []"
        by (simp add: filter_empty_conv)
      with True show ?thesis by simp
    next
      case False
      then show ?thesis using Cons by auto
    qed
  qed
  from this [OF assms True] True show ?thesis
    by (simp add: sql_upsert_translation_def)
next
  case False
  then have "\<forall>x\<in>set (translations_tbl (working db)). tr_key x \<noteq> tr_key r"
    by (metis imageI set_map)
  then have "filter (\<lambda>x. tr_key x = tr_key r) (translations_tbl (working db)) = []"
    by (simp add: filter_empty_conv)
  with False show ?thesis
    by (simp add: sql_upsert_translation_def)
qed

lemma upsert_translations_untouched_key:
  assumes "k \<notin> (\<lambda>t. (sn, language t)) ` set ts"
  shows "filter (\<lambda>x. tr_key x = k) (translations_tbl (working (upsert_translations sn ts db)))
       = filter (\<lambda>x. tr_key x = k) (translations_tbl (working db))"
proof -
  let ?K = "(\<lambda>t. (sn, language t)) ` set ts"
  have eq: "filter (\<lambda>x. tr_key x = k) rows = filter (\<lambda>x. tr_key x = k) (filter (\<lambda>x. tr_key x \<notin> ?K) rows)"
    for rows :: "translation_row list"
    using assms by (induction rows) auto
  show ?thesis
    by (subst eq, subst (2) eq) (simp only: upsert_translations_others [OF subset_refl])
qed

lemma upsert_translations_last_wins:
  assumes "distinct (map tr_key (translations_tbl (working db)))"
    and "find (\<lambda>u. language u = l) (rev ts) = Some t"
  shows "filter (\<lambda>x. tr_key x = (sn, l)) (translations_tbl (working (upsert_translations sn ts db)))
       = [(sn, l, title t, text_tr t)]"
  using assms
proof (induction ts arbitrary: db)
  case Nil
  then show ?case by simp
next
  case (Cons u ts)
  let ?db1 = "sql_upsert_translation (sn, language u, title u, text_tr u) db"
  have d1: "distinct (map tr_key (translations_tbl (working ?db1)))"
    using Cons.prems(1) by (rule sql_upsert_translation_distinct)
  show ?case
  proof (cases "find (\<lambda>u. language u = l) (rev ts)")
    case (Some t')
    then have "t' = t"
      using Cons.prems(2) by (simp add: find_append_cases)
    with Cons.IH [OF d1] Some show ?thesis by simp
  next
    case None
    then have u: "language u = l" "t = u"
      using Cons.prems(2) by (auto simp: find_append_cases split: if_splits)
    from None have "(sn, l) \<notin> (\<lambda>t. (sn, language t)) ` set ts"
      by (auto simp: find_None_iff)
    then have "filter (\<lambda>x. tr_key x = (sn, l))
                 (translations_tbl (working (upsert_translations sn ts ?db1)))
             = filter (\<lambda>x. tr_key x = (sn, l)) (translations_tbl (working ?db1))"
      by (rule upsert_translations_untouched_key)
    also have "\<dots> = [(sn, l, title t, text_tr t)]"
      using sql_upsert_translation_own_row [OF Cons.prems(1), of "(sn, language u, title u, text_tr u)"] u
      by (simp add: tr_key_def)
    finally show ?thesis by simp
  qed
qed

text \<open>
  C3: the store after any sequence of requests holds at most one song row per song number and
  at most one translation row per \<open>(song_number, language)\<close> pair; and when a PATCH of an
  existing song carries translations, a pair that is already in the store has exactly one
  row before and exactly one row after, which holds the title and the text of the last
  translation of that language in the request body.
\<close>

theorem unique_translations_and_upsert:
  "schema_ok (run reqs)
   \<and> (song_exists sn (run reqs)
      \<and> upd_translations body = Some ts
      \<and> find (\<lambda>u. language u = l) (rev ts) = Some t
      \<and> (sn, l) \<in> set (map tr_key (translations_tbl (run reqs)))
      \<longrightarrow> length (filter (\<lambda>r. tr_key r = (sn, l)) (translations_tbl (run reqs))) = 1
        \<and> filter (\<lambda>r. tr_key r = (sn, l))
             (translations_tbl (snd (update_song sn body (run reqs))))
            = [(sn, l, title t, text_tr t)])"
proof (intro conjI impI)
  show ok: "schema_ok (run reqs)"
    by (rule schema_ok_run)
  assume h: "song_exists sn (run reqs)
      \<and> upd_translations body = Some ts
      \<and> find (\<lambda>u. language u = l) (rev ts) = Some t
      \<and> (sn, l) \<in> set (map tr_key (translations_tbl (run reqs)))"
  have d: "distinct (map tr_key (translations_tbl (run reqs)))"
    using ok by (simp add: schema_ok_def)
  have "filter (\<lambda>r. tr_key r = (sn, l)) (translations_tbl (run reqs)) \<noteq> []"
    using h by (auto simp: filter_empty_conv)
  moreover have "length (filter (\<lambda>r. tr_key r = (sn, l)) (translations_tbl (run reqs))) \<le> Suc 0"
    using d by (rule distinct_key_filter_le1)
  ultimately show "length (filter (\<lambda>r. tr_key r = (sn, l)) (translations_tbl (run reqs))) = 1"
    by (cases "filter (\<lambda>r. tr_key r = (sn, l)) (translations_tbl (run reqs))") auto
  have "distinct (map tr_key (translations_tbl (working (connect (run reqs)))))"
    using d by simp
  from upsert_translations_last_wins [OF this, of l ts t sn] h
  show "filter (\<lambda>r. tr_key r = (sn, l))
             (translations_tbl (snd (update_song sn body (run reqs))))
            = [(sn, l, title t, text_tr t)]"
    by (simp add: update_song_store)
qed

theorem unique_translations_and_upsert_witness:
  "schema_ok (run [Post (sample_song [sample_en, sample_fr])])
   \<and> song_exists ''S1'' (run [Post (sample_song [sample_en, sample_fr])])
   \<and> (''S1'', ''en'') \<in> set (map tr_key (translations_tbl (run [Post (sample_song [sample_en, sample_fr])])))
   \<and> filter (\<lambda>r. tr_key r = (''S1'', ''en''))
        (translations_tbl (snd (update_song ''S1''
           \<lparr>upd_title_ta = None, upd_text_ta = None, upd_translations = Some [sample_en2]\<rparr>
           (run [Post (sample_song [sample_en, sample_fr])]))))
       = [(''S1'', ''en'', ''Hymn 2'', ''Words 2'')]
   \<and> translations_tbl (snd (update_song ''S1''
           \<lparr>upd_title_ta = None, upd_text_ta = None, upd_translations = Some [sample_en2]\<rparr>
           (run [Post (sample_song [sample_en, sample_fr])])))
       = [(''S1'', ''en'', ''Hymn 2'', ''Words 2''), (''S1'', ''fr'', ''Hymne'', ''Paroles'')]"
proof -
  let ?s = "run [Post (sample_song [sample_en, sample_fr])]"
  let ?b = "\<lparr>upd_title_ta = None, upd_text_ta = None, upd_translations = Some [sample_en2]\<rparr>"
  have s: "?s = \<lparr>songs_tbl = [(''S1'', ''Paadal'', ''Varigal'')],
         translations_tbl = [(''S1'', ''en'', ''Hymn'', ''Words''), (''S1'', ''fr'', ''Hymne'', ''Paroles'')]\<rparr>"
    by (simp add: run_def init_db_def create_song_def sql_insert_song_def
        sql_insert_translation_def tr_key_def connect_def commit_def close_def)
  have h1: "song_exists ''S1'' ?s"
    by (simp add: s song_exists_def)
  have h2: "(''S1'', ''en'') \<in> set (map tr_key (translations_tbl ?s))"
    by (simp add: s tr_key_def)
  have h3: "find (\<lambda>u. language u = ''en'') (rev [sample_en2]) = Some sample_en2"
    by simp
  have full: "translations_tbl (snd (update_song ''S1'' ?b ?s))
       = [(''S1'', ''en'', ''Hymn 2'', ''Words 2''), (''S1'', ''fr'', ''Hymne'', ''Paroles'')]"
    by (simp add: s update_song_def Let_def sql_select_song_def sql_upsert_translation_def
        tr_key_def connect_def commit_def close_def)
  show ?thesis
    using unique_translations_and_upsert
            [of "[Post (sample_song [sample_en, sample_fr])]" "''S1''" ?b "[sample_en2]"
                "''en''" sample_en2]
          h1 h2 h3 full
    by simp
qed

section \<open>The bootstrap loader is idempotent\<close>

lemma sql_insert_or_ignore_translation_frame [simp]:
  "songs_tbl (working (sql_insert_or_ignore_translation r db)) = songs_tbl (working db)"
  "committed (sql_insert_or_ignore_translation r db) = committed db"
  "foreign_keys (sql_insert_or_ignore_translation r db) = foreign_keys db"
  by (simp_all add: sql_insert_or_ignore_translation_def)

lemma load_translations_frame [simp]:
  "songs_tbl (working (load_translations sn ts db)) = songs_tbl (working db)"
  "committed (load_translations sn ts db) = committed db"
  "foreign_keys (load_translations sn ts db) = foreign_keys db"
  by (induction ts arbitrary: db) simp_all

lemma load_translations_prefix:
  "prefix (translations_tbl (working db)) (translations_tbl (working (load_translations sn ts db)))"
proof (induction ts arbitrary: db)
  case Nil
  then show ?case by simp
next
  case (Cons t ts)
  let ?db1 = "sql_insert_or_ignore_translation (sn, language t, title t, text_tr t) db"
  have "prefix (translations_tbl (working db)) (translations_tbl (working ?db1))"
    by (simp add: sql_insert_or_ignore_translation_def)
  then show ?case
    using Cons.IH [of ?db1] by (auto intro: prefix_order.trans)
qed

lemma load_translations_present:
  "(\<lambda>t. (sn, language t)) ` set ts
     \<subseteq> tr_key ` set (translations_tbl (working (load_translations sn ts db)))"
proof (induction ts arbitrary: db)
  case Nil
  then show ?case by simp
next
  case (Cons t ts)
  let ?db1 = "sql_insert_or_ignore_translation (sn, language t, title t, text_tr t) db"
  have "(sn, language t) \<in> tr_key ` set (translations_tbl (working ?db1))"
    by (auto simp: sql_insert_or_ignore_translation_def tr_key_def)
  moreover have "set (translations_tbl (working ?db1))
      \<subseteq> set (translations_tbl (working (load_translations sn ts ?db1)))"
    using load_translations_prefix [of ?db1 sn ts] by (rule set_mono_prefix)
  ultimately show ?case
    using Cons.IH [of ?db1] by auto
qed

lemma load_translations_noop:
  "(\<lambda>t. (sn, language t)) ` set ts \<subseteq> tr_key ` set (translations_tbl (working db)) \<Longrightarrow>
   load_translations sn ts db = db"
proof (induction ts arbitrary: db)
  case Nil
  then show ?case by simp
next
  case (Cons t ts)
  have "tr_key (sn, language t, title t, text_tr t) = (sn, language t)"
    by (simp add: tr_key_def)
  then have "tr_key (sn, language t, title t, text_tr t)
               \<in> tr_key ` set (translations_tbl (working db))"
    using Cons.prems by auto
  then have "sql_insert_or_ignore_translation (sn, language t, title t, text_tr t) db = db"
    by (simp add: sql_insert_or_ignore_translation_def)
  then show ?case
    using Cons by simp
qed

lemma load_items_prefix:
  "prefix (songs_tbl (working db)) (songs_tbl (working (load_items items db)))
   \<and> prefix (translations_tbl (working db)) (translations_tbl (working (load_items items db)))"
proof (induction items arbitrary: db)
  case Nil
  then show ?case by simp
next
  case (Cons item items)
  let ?db1 = "sql_insert_or_ignore_song
                (item_song_number item, item_title_ta item, item_text_ta item) db"
  let ?db2 = "load_translations (item_song_number item)
                (case item_translations item of Some ts \<Rightarrow> ts | None \<Rightarrow> []) ?db1"
  have s: "prefix (songs_tbl (working db)) (songs_tbl (working ?db2))"
    by (simp add: sql_insert_or_ignore_song_def)
  have "translations_tbl (working ?db1) = translations_tbl (working db)"
    by (simp add: sql_insert_or_ignore_song_def)
  then have t: "prefix (translations_tbl (working db)) (translations_tbl (working ?db2))"
    using load_translations_prefix [of ?db1] by simp
  show ?case
    using Cons.IH [of ?db2] s t by (auto intro: prefix_order.trans)
qed

lemma load_items_frame [simp]:
  "committed (load_items items db) = committed db"
  "foreign_keys (load_items items db) = foreign_keys db"
  by (induction items arbitrary: db) (simp_all add: sql_insert_or_ignore_song_def)

lemma load_items_present:
  "item_song_number ` set items \<subseteq> fst ` set (songs_tbl (working (load_items items db)))
   \<and> \<Union> (item_keys ` set items)
       \<subseteq> tr_key ` set (translations_tbl (working (load_items items db)))"
proof (induction items arbitrary: db)
  case Nil
  then show ?case by simp
next
  case (Cons item items)
  let ?db1 = "sql_insert_or_ignore_song
                (item_song_number item, item_title_ta item, item_text_ta item) db"
  let ?db2 = "load_translations (item_song_number item)
                (case item_translations item of Some ts \<Rightarrow> ts | None \<Rightarrow> []) ?db1"
  have "item_song_number item \<in> fst ` set (songs_tbl (working ?db1))"
    by (auto simp: sql_insert_or_ignore_song_def)
  then have a: "item_song_number item \<in> fst ` set (songs_tbl (working ?db2))"
    by simp
  have b: "item_keys item \<subseteq> tr_key ` set (translations_tbl (working ?db2))"
    unfolding item_keys_def by (rule load_translations_present)
  have mono: "set (songs_tbl (working ?db2)) \<subseteq> set (songs_tbl (working (load_items items ?db2)))"
    "set (translations_tbl (working ?db2))
       \<subseteq> set (translations_tbl (working (load_items items ?db2)))"
    using load_items_prefix [of ?db2 items] by (auto dest: set_mono_prefix)
  have "item_song_number item \<in> fst ` set (songs_tbl (working (load_items items ?db2)))"
    using a mono(1) by blast
  moreover have "item_keys item
       \<subseteq> tr_key ` set (translations_tbl (working (load_items items ?db2)))"
    using b mono(2) by blast
  ultimately show ?case
    using Cons.IH [of ?db2] by simp
qed

lemma load_items_noop:
  "item_song_number ` set items \<subseteq> fst ` set (songs_tbl (working db)) \<Longrightarrow>
   \<Union> (item_keys ` set items) \<subseteq> tr_key ` set (translations_tbl (working db)) \<Longrightarrow>
   load_items items db = db"
proof (induction items arbitrary: db)
  case Nil
  then show ?case by simp
next
  case (Cons item items)
  have 1: "sql_insert_or_ignore_song
             (item_song_number item, item_title_ta item, item_text_ta item) db = db"
    using Cons.prems(1) by (simp add: sql_insert_or_ignore_song_def)
  have 2: "load_translations (item_song_number item)
             (case item_translations item of Some ts \<Rightarrow> ts | None \<Rightarrow> []) db = db"
    using Cons.prems(2) by (intro load_translations_noop) (simp add: item_keys_def)
  show ?case
    using Cons by (simp add: 1 2)
qed

lemma load_initial_data_idem:
  "load_initial_data seed (load_initial_data seed s) = load_initial_data seed s"
proof (cases seed)
  case None
  then show ?thesis by (simp add: load_initial_data_def)
next
  case (Some data)
  let ?db = "load_items data (connect s)"
  let ?db' = "connect (working ?db)"
  have "load_items data ?db' = ?db'"
    using load_items_present [of data "connect s"]
    by (intro load_items_noop) simp_all
  then show ?thesis
    using Some by (simp add: load_initial_data_def close_def commit_def)
qed

lemma load_initial_data_prefix:
  "prefix (songs_tbl s) (songs_tbl (load_initial_data seed s))
   \<and> prefix (translations_tbl s) (translations_tbl (load_initial_data seed s))"
  using load_items_prefix [of "connect s"]
  by (cases seed) (simp_all add: load_initial_data_def close_def commit_def)

text \<open>
  C9: loading the same seed file a second time leaves the store as the first load left it;
  a load keeps every row that was in the store, in its place and with its contents, and only
  appends rows; it keeps the keys of both tables unique; and without a seed file the store
  is unchanged.
\<close>

theorem bootstrap_idempotent:
  "load_initial_data seed (load_initial_data seed s) = load_initial_data seed s
   \<and> prefix (songs_tbl s) (songs_tbl (load_initial_data seed s))
   \<and> prefix (translations_tbl s) (translations_tbl (load_initial_data seed s))
   \<and> (schema_ok s \<longrightarrow> schema_ok (load_initial_data seed s))
   \<and> load_initial_data None s = s"
  using load_initial_data_prefix [of s seed]
  by (simp add: load_initial_data_idem schema_ok_load_initial_data)
     (simp add: load_initial_data_def)

theorem bootstrap_idempotent_witness:
  "schema_ok (run [Post (sample_song [sample_en])])
   \<and> load_initial_data
         (Some [\<lparr>item_song_number = ''S1'', item_title_ta = ''Other'', item_text_ta = ''Other'',
                  item_translations = Some [sample_en2, sample_fr]\<rparr>,
                \<lparr>item_song_number = ''S2'', item_title_ta = ''Two'', item_text_ta = ''Second'',
                  item_translations = None\<rparr>])
         (run [Post (sample_song [sample_en])])
       = \<lparr>songs_tbl = [(''S1'', ''Paadal'', ''Varigal''), (''S2'', ''Two'', ''Second'')],
          translations_tbl =
            [(''S1'', ''en'', ''Hymn'', ''Words''), (''S1'', ''fr'', ''Hymne'', ''Paroles'')]\<rparr>
   \<and> load_initial_data
         (Some [\<lparr>item_song_number = ''S1'', item_title_ta = ''Other'', item_text_ta = ''Other'',
                  item_translations = Some [sample_en2, sample_fr]\<rparr>,
                \<lparr>item_song_number = ''S2'', item_title_ta = ''Two'', item_text_ta = ''Second'',
                  item_translations = None\<rparr>])
         \<lparr>songs_tbl = [(''S1'', ''Paadal'', ''Varigal''), (''S2'', ''Two'', ''Second'')],
          translations_tbl =
            [(''S1'', ''en'', ''Hymn'', ''Words''), (''S1'', ''fr'', ''Hymne'', ''Paroles'')]\<rparr>
       = \<lparr>songs_tbl = [(''S1'', ''Paadal'', ''Varigal''), (''S2'', ''Two'', ''Second'')],
          translations_tbl =
            [(''S1'', ''en'', ''Hymn'', ''Words''), (''S1'', ''fr'', ''Hymne'', ''Paroles'')]\<rparr>
   \<and> schema_ok
         \<lparr>songs_tbl = [(''S1'', ''Paadal'', ''Varigal''), (''S2'', ''Two'', ''Second'')],
          translations_tbl =
            [(''S1'', ''en'', ''Hymn'', ''Words''), (''S1'', ''fr'', ''Hymne'', ''Paroles'')]\<rparr>"
proof -
  let ?s = "run [Post (sample_song [sample_en])]"
  let ?seed = "Some [\<lparr>item_song_number = ''S1'', item_title_ta = ''Other'', item_text_ta = ''Other'',
                  item_translations = Some [sample_en2, sample_fr]\<rparr>,
                \<lparr>item_song_number = ''S2'', item_title_ta = ''Two'', item_text_ta = ''Second'',
                  item_translations = None\<rparr>]"
  have s: "?s = \<lparr>songs_tbl = [(''S1'', ''Paadal'', ''Varigal'')],
                 translations_tbl = [(''S1'', ''en'', ''Hymn'', ''Words'')]\<rparr>"
    by (simp add: store_eval)
  have h: "schema_ok ?s"
    by (simp add: s schema_ok_def tr_key_def)
  have once: "load_initial_data ?seed ?s
       = \<lparr>songs_tbl = [(''S1'', ''Paadal'', ''Varigal''), (''S2'', ''Two'', ''Second'')],
          translations_tbl =
            [(''S1'', ''en'', ''Hymn'', ''Words''), (''S1'', ''fr'', ''Hymne'', ''Paroles'')]\<rparr>"
    by (simp add: s load_initial_data_def sql_insert_or_ignore_song_def
        sql_insert_or_ignore_translation_def tr_key_def connect_def commit_def close_def)
  show ?thesis
    using h bootstrap_idempotent [of ?seed ?s] by (simp add: once)
qed

end
